theory Spec2Isabelle
  imports Main
begin

section \<open>Python values and duck-typed objects\<close>

text \<open>
  The module \<^verbatim>\<open>libp2p/transport/capabilities.py\<close> inspects transports and connections
  only through \<^verbatim>\<open>hasattr\<close>, \<^verbatim>\<open>getattr\<close> with a default, \<^verbatim>\<open>callable\<close>, \<^verbatim>\<open>bool\<close>,
  \<^verbatim>\<open>is None\<close> and one zero-argument call. An object is therefore modelled by the
  attributes it resolves: a finite map from attribute names to values.

  Calling is the one construct of the module that can raise: calling a value that is not
  callable raises \<^verbatim>\<open>TypeError\<close>, and a callable may raise an exception of its own.
\<close>

datatype exn = TypeError | Raised string

text \<open>
  \<open>PObject\<close> is an opaque instance without \<^verbatim>\<open>__call__\<close>, \<^verbatim>\<open>__bool__\<close> or
  \<^verbatim>\<open>__len__\<close> (for instance \<^verbatim>\<open>object()\<close> or an event); \<open>PCallable\<close> is a function,
  bound method or other callable object, carrying what a call with no arguments does:
  raise, or return a value. The first argument of both is the object's identity.
\<close>

datatype pyval =
    PNone
  | PBool bool
  | PInt int
  | PStr string
  | PList "pyval list"
  | PObject nat
  | PCallable nat "exn + pyval"

type_synonym pyobj = "string \<rightharpoonup> pyval"

text \<open>\<^verbatim>\<open>bool(v)\<close>: Python's truth-value test.\<close>

fun py_bool :: "pyval \<Rightarrow> bool" where
  "py_bool PNone = False"
| "py_bool (PBool b) = b"
| "py_bool (PInt n) = (n \<noteq> 0)"
| "py_bool (PStr s) = (s \<noteq> [])"
| "py_bool (PList xs) = (xs \<noteq> [])"
| "py_bool (PObject _) = True"
| "py_bool (PCallable _ _) = True"

text \<open>\<^verbatim>\<open>callable(v)\<close>.\<close>

fun callable :: "pyval \<Rightarrow> bool" where
  "callable (PCallable _ _) = True"
| "callable _ = False"

text \<open>\<^verbatim>\<open>v()\<close>: a call with no arguments.\<close>

fun call0 :: "pyval \<Rightarrow> exn + pyval" where
  "call0 (PCallable _ r) = r"
| "call0 _ = Inl TypeError"

text \<open>\<^verbatim>\<open>hasattr(obj, name)\<close> and \<^verbatim>\<open>getattr(obj, name, default)\<close>.\<close>

definition hasattr :: "pyobj \<Rightarrow> string \<Rightarrow> bool" where
  "hasattr obj name = (case obj name of None \<Rightarrow> False | Some _ \<Rightarrow> True)"

definition getattr :: "pyobj \<Rightarrow> string \<Rightarrow> pyval \<Rightarrow> pyval" where
  "getattr obj name dflt = (case obj name of None \<Rightarrow> dflt | Some v \<Rightarrow> v)"

text \<open>
  \<^verbatim>\<open>a and b\<close> on two \<^verbatim>\<open>bool\<close> operands: the first operand when it is false, else the
  second.
\<close>

definition py_and :: "bool \<Rightarrow> bool \<Rightarrow> bool" where
  "py_and a b = (if a then b else a)"


section \<open>Transport capability helpers\<close>

definition PROVIDES_SECURE_ATTRIBUTE :: string where
  "PROVIDES_SECURE_ATTRIBUTE = ''provides_secure_connection''"

definition PROVIDES_MUXED_ATTRIBUTE :: string where
  "PROVIDES_MUXED_ATTRIBUTE = ''provides_muxed_connection''"

definition transport_provides_secure_connection :: "pyobj \<Rightarrow> bool" where
  "transport_provides_secure_connection transport =
     py_bool (getattr transport PROVIDES_SECURE_ATTRIBUTE (PBool False))"

definition transport_provides_muxed_connection :: "pyobj \<Rightarrow> bool" where
  "transport_provides_muxed_connection transport =
     py_bool (getattr transport PROVIDES_MUXED_ATTRIBUTE (PBool False))"

definition transport_provides_secure_muxed :: "pyobj \<Rightarrow> bool" where
  "transport_provides_secure_muxed transport =
     py_and (transport_provides_secure_connection transport)
            (transport_provides_muxed_connection transport)"


section \<open>Muxed-connection capability helpers\<close>

definition muxed_conn_has_resource_scope :: "pyobj \<Rightarrow> bool" where
  "muxed_conn_has_resource_scope muxed_conn =
     py_and (hasattr muxed_conn ''set_resource_scope'')
            (callable (getattr muxed_conn ''set_resource_scope'' PNone))"

definition muxed_conn_has_establishment_wait :: "pyobj \<Rightarrow> bool" where
  "muxed_conn_has_establishment_wait muxed_conn =
     (let has_established = hasattr muxed_conn ''is_established'';
          has_event = hasattr muxed_conn ''_connected_event''
      in py_bool (PBool (py_and has_established has_event)))"

definition muxed_conn_has_negotiation_semaphore :: "pyobj \<Rightarrow> bool" where
  "muxed_conn_has_negotiation_semaphore muxed_conn =
     py_and (hasattr muxed_conn ''_negotiation_semaphore'')
            (getattr muxed_conn ''_negotiation_semaphore'' PNone \<noteq> PNone)"

definition muxed_conn_get_establishment_waiter :: "pyobj \<Rightarrow> pyval" where
  "muxed_conn_get_establishment_waiter muxed_conn =
     getattr muxed_conn ''_connected_event'' PNone"

definition muxed_conn_is_established :: "pyobj \<Rightarrow> exn + bool" where
  "muxed_conn_is_established muxed_conn =
     (let established = getattr muxed_conn ''is_established'' PNone in
      if established = PNone then Inr True
      else if callable established then
        (case call0 established of
           Inl e \<Rightarrow> Inl e
         | Inr r \<Rightarrow> Inr (py_bool r))
      else Inr (py_bool established))"


section \<open>Upgrade planner\<close>

datatype upgrade_plan = RunBoth | RunMuxerOnly | RunSecurityOnly | RunNeither

text \<open>
  Modelled from the spec: the Upgrade Planner (the swarm code that consumes the
  classifier) is not part of \<^verbatim>\<open>capabilities.py\<close>; the decision table of the
  specification's section 4.2 is taken row by row. The module's docstring lists the same
  four cases and words the muxed-but-not-secure one as "use as-is"; the row modelled here
  is the specification's RunSecurityOnly.
\<close>

fun planner :: "bool \<Rightarrow> bool \<Rightarrow> upgrade_plan" where
  "planner False False = RunBoth"
| "planner True False = RunMuxerOnly"
| "planner False True = RunSecurityOnly"
| "planner True True = RunNeither"

text \<open>
  Modelled from the spec: the plan of a transport is the planner applied to the
  transport's capability record \<open>(providesSecure, providesMuxed)\<close>, each component
  computed by the classifier.
\<close>

definition transport_upgrade_plan :: "pyobj \<Rightarrow> upgrade_plan" where
  "transport_upgrade_plan transport =
     planner (transport_provides_secure_connection transport)
             (transport_provides_muxed_connection transport)"


section \<open>Basic facts about attribute lookup\<close>

lemma hasattr_iff: "hasattr obj name \<longleftrightarrow> obj name \<noteq> None"
  by (simp add: hasattr_def split: option.split)

lemma getattr_absent: "obj name = None \<Longrightarrow> getattr obj name d = d"
  by (simp add: getattr_def)

lemma getattr_present: "obj name = Some v \<Longrightarrow> getattr obj name d = v"
  by (simp add: getattr_def)

lemma py_and_conj: "py_and a b \<longleftrightarrow> a \<and> b"
  by (simp add: py_and_def)


section \<open>Transport markers\<close>

text \<open>
  Claim C3. For every transport, \<^verbatim>\<open>transport_provides_secure_muxed\<close> equals the logical
  conjunction of \<^verbatim>\<open>transport_provides_secure_connection\<close> and
  \<^verbatim>\<open>transport_provides_muxed_connection\<close>.
\<close>

theorem transport_provides_secure_muxed_is_conj:
  "transport_provides_secure_muxed t =
     (transport_provides_secure_connection t \<and> transport_provides_muxed_connection t)"
  unfolding transport_provides_secure_muxed_def by (rule py_and_conj)

text \<open>
  Claim C7. \<^verbatim>\<open>transport_provides_secure_connection\<close> and
  \<^verbatim>\<open>transport_provides_muxed_connection\<close> each return false when their marker
  (\<^verbatim>\<open>provides_secure_connection\<close>, \<^verbatim>\<open>provides_muxed_connection\<close>) is absent, and the
  truth value of the marker's value when it is present: a non-zero integer counts as
  true; zero, the empty string, the empty list, \<^verbatim>\<open>None\<close> and \<^verbatim>\<open>False\<close> count as false.
\<close>

theorem transport_marker_truthiness:
  "(t ''provides_secure_connection'' = None \<longrightarrow> \<not> transport_provides_secure_connection t) \<and>
   (t ''provides_secure_connection'' = Some v \<longrightarrow>
      transport_provides_secure_connection t = py_bool v) \<and>
   (u ''provides_muxed_connection'' = None \<longrightarrow> \<not> transport_provides_muxed_connection u) \<and>
   (u ''provides_muxed_connection'' = Some w \<longrightarrow>
      transport_provides_muxed_connection u = py_bool w) \<and>
   (n \<noteq> 0 \<longrightarrow> py_bool (PInt n)) \<and>
   \<not> py_bool (PInt 0) \<and> \<not> py_bool (PStr []) \<and> \<not> py_bool (PList []) \<and>
   \<not> py_bool PNone \<and> \<not> py_bool (PBool False)"
proof -
  have secure: "transport_provides_secure_connection t =
      (case t ''provides_secure_connection'' of None \<Rightarrow> False | Some x \<Rightarrow> py_bool x)"
    by (simp add: transport_provides_secure_connection_def PROVIDES_SECURE_ATTRIBUTE_def
        getattr_def split: option.split)
  have muxed: "transport_provides_muxed_connection u =
      (case u ''provides_muxed_connection'' of None \<Rightarrow> False | Some x \<Rightarrow> py_bool x)"
    by (simp add: transport_provides_muxed_connection_def PROVIDES_MUXED_ATTRIBUTE_def
        getattr_def split: option.split)
  show ?thesis
    by (simp add: secure muxed)
qed

theorem transport_marker_truthiness_witness:
  "\<not> transport_provides_secure_connection Map.empty \<and>
   transport_provides_secure_connection [''provides_secure_connection'' \<mapsto> PInt 1] \<and>
   \<not> transport_provides_muxed_connection [''provides_secure_connection'' \<mapsto> PInt 1] \<and>
   \<not> transport_provides_muxed_connection [''provides_muxed_connection'' \<mapsto> PInt 0] \<and>
   py_bool (PInt 7)"
  using transport_marker_truthiness
          [of Map.empty "PNone" "[''provides_secure_connection'' \<mapsto> PInt 1]" "PNone" 7]
        transport_marker_truthiness
          [of "[''provides_secure_connection'' \<mapsto> PInt 1]" "PInt 1"
              "[''provides_muxed_connection'' \<mapsto> PInt 0]" "PInt 0" 7]
  by simp


section \<open>Upgrade plan\<close>

text \<open>
  Claim C4. The planner maps the pair \<open>(providesSecure, providesMuxed)\<close> as the four-row
  table says: \<open>(false, false)\<close> to RunBoth, \<open>(true, false)\<close> to RunMuxerOnly,
  \<open>(false, true)\<close> to RunSecurityOnly and \<open>(true, true)\<close> to RunNeither. Distinct pairs
  get distinct plans and every plan is the image of some pair, so the four outcomes are
  mutually exclusive and exhaustive. For every transport the plan is RunNeither exactly
  when \<^verbatim>\<open>transport_provides_secure_muxed\<close> holds.
\<close>

theorem planner_table:
  "planner False False = RunBoth \<and>
   planner True False = RunMuxerOnly \<and>
   planner False True = RunSecurityOnly \<and>
   planner True True = RunNeither \<and>
   (planner a b = planner a' b' \<longleftrightarrow> a = a' \<and> b = b') \<and>
   (\<exists>x y. planner x y = p) \<and>
   (transport_upgrade_plan t = RunNeither \<longleftrightarrow> transport_provides_secure_muxed t)"
proof -
  have inj: "planner a b = planner a' b' \<longleftrightarrow> a = a' \<and> b = b'"
    by (cases a; cases b; cases a'; cases b') simp_all
  have surj: "\<exists>x y. planner x y = p"
  proof (cases p)
    case RunBoth
    then show ?thesis using planner.simps(1) by blast
  next
    case RunMuxerOnly
    then show ?thesis using planner.simps(2) by blast
  next
    case RunSecurityOnly
    then show ?thesis using planner.simps(3) by blast
  next
    case RunNeither
    then show ?thesis using planner.simps(4) by blast
  qed
  have neither: "planner x y = RunNeither \<longleftrightarrow> x \<and> y" for x y
    by (cases x; cases y) simp_all
  have skip: "transport_upgrade_plan t = RunNeither \<longleftrightarrow> transport_provides_secure_muxed t"
    by (simp add: transport_upgrade_plan_def transport_provides_secure_muxed_def
        neither py_and_conj)
  from inj surj skip show ?thesis by simp
qed


section \<open>Connection capabilities\<close>

text \<open>
  Claim C5. \<^verbatim>\<open>muxed_conn_has_resource_scope\<close> is false when \<^verbatim>\<open>set_resource_scope\<close> is
  absent, false when it is present with the value \<^verbatim>\<open>None\<close>, false when it is present
  with a value that is not callable (an integer, for instance), and true exactly when it is
  present and callable.
\<close>

theorem muxed_conn_has_resource_scope_iff:
  "(c ''set_resource_scope'' = None \<longrightarrow> \<not> muxed_conn_has_resource_scope c) \<and>
   (c ''set_resource_scope'' = Some PNone \<longrightarrow> \<not> muxed_conn_has_resource_scope c) \<and>
   (c ''set_resource_scope'' = Some (PInt k) \<longrightarrow> \<not> muxed_conn_has_resource_scope c) \<and>
   (c ''set_resource_scope'' = Some v \<and> \<not> callable v \<longrightarrow> \<not> muxed_conn_has_resource_scope c) \<and>
   (muxed_conn_has_resource_scope c \<longleftrightarrow>
      (\<exists>f. c ''set_resource_scope'' = Some f \<and> callable f))"
proof -
  have iff: "muxed_conn_has_resource_scope c \<longleftrightarrow>
      (\<exists>f. c ''set_resource_scope'' = Some f \<and> callable f)"
  proof (cases "c ''set_resource_scope''")
    case None
    then show ?thesis
      by (simp add: muxed_conn_has_resource_scope_def py_and_conj hasattr_iff)
  next
    case (Some f)
    then show ?thesis
      by (simp add: muxed_conn_has_resource_scope_def py_and_conj hasattr_iff
          getattr_present)
  qed
  then show ?thesis by auto
qed

theorem muxed_conn_has_resource_scope_iff_witness:
  "\<not> muxed_conn_has_resource_scope Map.empty \<and>
   \<not> muxed_conn_has_resource_scope [''set_resource_scope'' \<mapsto> PNone] \<and>
   \<not> muxed_conn_has_resource_scope [''set_resource_scope'' \<mapsto> PInt 42] \<and>
   \<not> muxed_conn_has_resource_scope [''set_resource_scope'' \<mapsto> PStr ''scope''] \<and>
   muxed_conn_has_resource_scope [''set_resource_scope'' \<mapsto> PCallable 0 (Inr PNone)]"
  using muxed_conn_has_resource_scope_iff [of Map.empty 42 PNone]
        muxed_conn_has_resource_scope_iff [of "[''set_resource_scope'' \<mapsto> PNone]" 42 PNone]
        muxed_conn_has_resource_scope_iff [of "[''set_resource_scope'' \<mapsto> PInt 42]" 42 "PInt 42"]
        muxed_conn_has_resource_scope_iff
          [of "[''set_resource_scope'' \<mapsto> PStr ''scope'']" 42 "PStr ''scope''"]
        muxed_conn_has_resource_scope_iff
          [of "[''set_resource_scope'' \<mapsto> PCallable 0 (Inr PNone)]" 42 "PCallable 0 (Inr PNone)"]
  by simp

text \<open>
  Claim C2. \<^verbatim>\<open>muxed_conn_has_establishment_wait\<close> is true if and only if the connection
  has both \<^verbatim>\<open>is_established\<close> and \<^verbatim>\<open>_connected_event\<close>: it is false when only one of
  the two is present and false when both are absent.
\<close>

theorem muxed_conn_has_establishment_wait_iff:
  "(muxed_conn_has_establishment_wait c \<longleftrightarrow>
      c ''is_established'' \<noteq> None \<and> c ''_connected_event'' \<noteq> None) \<and>
   muxed_conn_has_establishment_wait
      [''is_established'' \<mapsto> s, ''_connected_event'' \<mapsto> h] \<and>
   \<not> muxed_conn_has_establishment_wait [''is_established'' \<mapsto> s] \<and>
   \<not> muxed_conn_has_establishment_wait [''_connected_event'' \<mapsto> h] \<and>
   \<not> muxed_conn_has_establishment_wait Map.empty"
proof -
  have both: "muxed_conn_has_establishment_wait d \<longleftrightarrow>
      d ''is_established'' \<noteq> None \<and> d ''_connected_event'' \<noteq> None" for d
    unfolding muxed_conn_has_establishment_wait_def Let_def
    by (simp only: py_bool.simps py_and_conj hasattr_iff)
  show ?thesis
    by (simp add: both)
qed

text \<open>
  Claim C8. \<^verbatim>\<open>muxed_conn_get_establishment_waiter\<close> returns the value of
  \<^verbatim>\<open>_connected_event\<close> whenever the connection has that member, whether or not
  \<^verbatim>\<open>is_established\<close> exists as well, and returns \<^verbatim>\<open>None\<close> when the connection does not
  have it.
\<close>

theorem muxed_conn_get_establishment_waiter_lookup:
  "(c ''_connected_event'' = Some h \<longrightarrow> muxed_conn_get_establishment_waiter c = h) \<and>
   (c ''_connected_event'' = None \<longrightarrow> muxed_conn_get_establishment_waiter c = PNone) \<and>
   muxed_conn_get_establishment_waiter (c(''is_established'' := st)) =
     muxed_conn_get_establishment_waiter c"
  by (simp add: muxed_conn_get_establishment_waiter_def getattr_def)

theorem muxed_conn_get_establishment_waiter_lookup_witness:
  "muxed_conn_get_establishment_waiter [''_connected_event'' \<mapsto> PObject 5] = PObject 5 \<and>
   \<not> muxed_conn_has_establishment_wait [''_connected_event'' \<mapsto> PObject 5] \<and>
   muxed_conn_get_establishment_waiter [''is_established'' \<mapsto> PBool True] = PNone"
proof -
  let ?only_event = "[''_connected_event'' \<mapsto> PObject 5]"
  let ?only_status = "[''is_established'' \<mapsto> PBool True]"
  have present: "?only_event ''_connected_event'' = Some (PObject 5)"
    by simp
  have absent: "?only_status ''_connected_event'' = None"
    by simp
  have no_wait: "\<not> muxed_conn_has_establishment_wait ?only_event"
    by (simp add: muxed_conn_has_establishment_wait_def hasattr_def py_and_def)
  from muxed_conn_get_establishment_waiter_lookup [of ?only_event "PObject 5" None] present
  have "muxed_conn_get_establishment_waiter ?only_event = PObject 5"
    by blast
  moreover
  from muxed_conn_get_establishment_waiter_lookup [of ?only_status PNone None] absent
  have "muxed_conn_get_establishment_waiter ?only_status = PNone"
    by blast
  ultimately show ?thesis
    using no_wait by blast
qed

text \<open>
  Claim C10. For a connection whose \<^verbatim>\<open>_connected_event\<close> is present with the value
  \<^verbatim>\<open>None\<close> and whose \<^verbatim>\<open>is_established\<close> is present,
  \<^verbatim>\<open>muxed_conn_has_establishment_wait\<close> is true while
  \<^verbatim>\<open>muxed_conn_get_establishment_waiter\<close> returns \<^verbatim>\<open>None\<close>: the verdict looks at the
  presence of the members only, not at their values.
\<close>

theorem establishment_wait_with_none_event:
  assumes status: "c ''is_established'' = Some s"
    and event: "c ''_connected_event'' = Some PNone"
  shows "muxed_conn_has_establishment_wait c \<and>
         muxed_conn_get_establishment_waiter c = PNone"
proof
  from status event show "muxed_conn_has_establishment_wait c"
    by (simp add: muxed_conn_has_establishment_wait_def hasattr_iff py_and_conj)
next
  from event show "muxed_conn_get_establishment_waiter c = PNone"
    unfolding muxed_conn_get_establishment_waiter_def by (rule getattr_present)
qed

theorem establishment_wait_with_none_event_witness:
  "muxed_conn_has_establishment_wait
     [''is_established'' \<mapsto> PBool False, ''_connected_event'' \<mapsto> PNone] \<and>
   muxed_conn_get_establishment_waiter
     [''is_established'' \<mapsto> PBool False, ''_connected_event'' \<mapsto> PNone] = PNone"
  by (rule establishment_wait_with_none_event [where s = "PBool False"]) simp_all

text \<open>
  Claim C6. \<^verbatim>\<open>muxed_conn_has_negotiation_semaphore\<close> is true if and only if
  \<^verbatim>\<open>_negotiation_semaphore\<close> is present and its value is not \<^verbatim>\<open>None\<close>. Any present
  value other than \<^verbatim>\<open>None\<close> gives true, callable or not, true or false as a truth value;
  an absent member and a member set to \<^verbatim>\<open>None\<close> give false.
\<close>

theorem muxed_conn_has_negotiation_semaphore_iff:
  "(muxed_conn_has_negotiation_semaphore c \<longleftrightarrow>
      (\<exists>v. c ''_negotiation_semaphore'' = Some v \<and> v \<noteq> PNone)) \<and>
   (v \<noteq> PNone \<longrightarrow>
      muxed_conn_has_negotiation_semaphore (c(''_negotiation_semaphore'' \<mapsto> v))) \<and>
   \<not> muxed_conn_has_negotiation_semaphore (c(''_negotiation_semaphore'' \<mapsto> PNone)) \<and>
   \<not> muxed_conn_has_negotiation_semaphore (c(''_negotiation_semaphore'' := None))"
proof -
  have iff: "muxed_conn_has_negotiation_semaphore d \<longleftrightarrow>
      (\<exists>x. d ''_negotiation_semaphore'' = Some x \<and> x \<noteq> PNone)" for d
    by (cases "d ''_negotiation_semaphore''")
       (simp_all add: muxed_conn_has_negotiation_semaphore_def py_and_conj hasattr_iff
          getattr_def)
  show ?thesis
    unfolding iff by simp
qed

theorem muxed_conn_has_negotiation_semaphore_iff_witness:
  "muxed_conn_has_negotiation_semaphore [''_negotiation_semaphore'' \<mapsto> PInt 0] \<and>
   \<not> py_bool (PInt 0) \<and> \<not> callable (PInt 0) \<and>
   muxed_conn_has_negotiation_semaphore
     [''_negotiation_semaphore'' \<mapsto> PCallable 1 (Inr PNone)] \<and>
   muxed_conn_has_negotiation_semaphore [''_negotiation_semaphore'' \<mapsto> PObject 2]"
  using muxed_conn_has_negotiation_semaphore_iff [of Map.empty "PInt 0"]
        muxed_conn_has_negotiation_semaphore_iff [of Map.empty "PCallable 1 (Inr PNone)"]
        muxed_conn_has_negotiation_semaphore_iff [of Map.empty "PObject 2"]
  by simp


section \<open>Establishment status\<close>

lemma muxed_conn_is_established_absent:
  "c ''is_established'' = None \<Longrightarrow> muxed_conn_is_established c = Inr True"
  by (simp add: muxed_conn_is_established_def getattr_absent)

lemma muxed_conn_is_established_present:
  "c ''is_established'' = Some v \<Longrightarrow>
   muxed_conn_is_established c =
     (if v = PNone then Inr True
      else if callable v then (case call0 v of Inl e \<Rightarrow> Inl e | Inr r \<Rightarrow> Inr (py_bool r))
      else Inr (py_bool v))"
  by (simp add: muxed_conn_is_established_def getattr_present)

text \<open>
  Claim C1, as stated, says that a present \<^verbatim>\<open>is_established\<close> that is not callable yields
  the truth value of the member's value, so that \<^verbatim>\<open>None\<close> yields false. The function
  reads the member with the default \<^verbatim>\<open>None\<close> and returns true as soon as what it read
  is \<^verbatim>\<open>None\<close>: a member that is present with the value \<^verbatim>\<open>None\<close> is not callable, has
  the truth value false, and yields true.
\<close>

theorem muxed_conn_is_established_none_counterexample:
  "[''is_established'' \<mapsto> PNone] ''is_established'' = Some PNone \<and>
   \<not> callable PNone \<and>
   \<not> py_bool PNone \<and>
   muxed_conn_is_established [''is_established'' \<mapsto> PNone] = Inr True \<and>
   muxed_conn_is_established [''is_established'' \<mapsto> PNone] \<noteq> Inr (py_bool PNone)"
  by (simp add: muxed_conn_is_established_def getattr_def)

text \<open>
  Claim C1, amended. \<^verbatim>\<open>muxed_conn_is_established\<close> returns true when \<^verbatim>\<open>is_established\<close>
  is absent or is present with the value \<^verbatim>\<open>None\<close>; when the member is callable it is
  called with no arguments and the truth value of what the call returns is returned (an
  exception of the call propagates); when the member is present, is not \<^verbatim>\<open>None\<close> and is
  not callable, the truth value of the member's value is returned, so \<^verbatim>\<open>0\<close> yields
  false and \<^verbatim>\<open>1\<close> yields true.
\<close>

theorem muxed_conn_is_established_cases:
  "(c ''is_established'' = None \<longrightarrow> muxed_conn_is_established c = Inr True) \<and>
   (c ''is_established'' = Some PNone \<longrightarrow> muxed_conn_is_established c = Inr True) \<and>
   (c ''is_established'' = Some f \<and> callable f \<and> call0 f = Inr r \<longrightarrow>
      muxed_conn_is_established c = Inr (py_bool r)) \<and>
   (c ''is_established'' = Some f \<and> callable f \<and> call0 f = Inl e \<longrightarrow>
      muxed_conn_is_established c = Inl e) \<and>
   (c ''is_established'' = Some v \<and> v \<noteq> PNone \<and> \<not> callable v \<longrightarrow>
      muxed_conn_is_established c = Inr (py_bool v))"
proof (intro conjI impI)
  assume "c ''is_established'' = None"
  then show "muxed_conn_is_established c = Inr True"
    by (rule muxed_conn_is_established_absent)
next
  assume "c ''is_established'' = Some PNone"
  then show "muxed_conn_is_established c = Inr True"
    by (simp add: muxed_conn_is_established_present)
next
  assume a: "c ''is_established'' = Some f \<and> callable f \<and> call0 f = Inr r"
  then have "f \<noteq> PNone" by auto
  with a show "muxed_conn_is_established c = Inr (py_bool r)"
    by (simp add: muxed_conn_is_established_present)
next
  assume a: "c ''is_established'' = Some f \<and> callable f \<and> call0 f = Inl e"
  then have "f \<noteq> PNone" by auto
  with a show "muxed_conn_is_established c = Inl e"
    by (simp add: muxed_conn_is_established_present)
next
  assume "c ''is_established'' = Some v \<and> v \<noteq> PNone \<and> \<not> callable v"
  then show "muxed_conn_is_established c = Inr (py_bool v)"
    by (simp add: muxed_conn_is_established_present)
qed

theorem muxed_conn_is_established_cases_witness:
  "muxed_conn_is_established Map.empty = Inr True \<and>
   muxed_conn_is_established [''is_established'' \<mapsto> PCallable 0 (Inr (PBool False))]
     = Inr False \<and>
   muxed_conn_is_established [''is_established'' \<mapsto> PCallable 0 (Inl (Raised ''closed''))]
     = Inl (Raised ''closed'') \<and>
   muxed_conn_is_established [''is_established'' \<mapsto> PInt 0] = Inr False \<and>
   muxed_conn_is_established [''is_established'' \<mapsto> PInt 1] = Inr True"
  using muxed_conn_is_established_cases
          [of Map.empty PNone PNone "Raised []" PNone]
        muxed_conn_is_established_cases
          [of "[''is_established'' \<mapsto> PCallable 0 (Inr (PBool False))]"
              "PCallable 0 (Inr (PBool False))" "PBool False" "Raised []" PNone]
        muxed_conn_is_established_cases
          [of "[''is_established'' \<mapsto> PCallable 0 (Inl (Raised ''closed''))]"
              "PCallable 0 (Inl (Raised ''closed''))" PNone "Raised ''closed''" PNone]
        muxed_conn_is_established_cases
          [of "[''is_established'' \<mapsto> PInt 0]" PNone PNone "Raised []" "PInt 0"]
        muxed_conn_is_established_cases
          [of "[''is_established'' \<mapsto> PInt 1]" PNone PNone "Raised []" "PInt 1"]
  by simp


section \<open>Totality of the classifier\<close>

text \<open>
  Claim C9. Every classifier operation returns a result on every transport and connection
  object, and its default when its marker is absent: false for the two transport markers
  and their conjunction, for the resource scope, the establishment wait and the
  negotiation semaphore, \<^verbatim>\<open>None\<close> for the waiter, and true for the establishment
  status. Only \<^verbatim>\<open>muxed_conn_is_established\<close> contains a call; it does not raise when
  \<^verbatim>\<open>is_established\<close> is absent or not callable (such a member is read as a value, although
  calling it would raise \<^verbatim>\<open>TypeError\<close>), and whenever it raises, the exception is the one
  raised by the callable member itself.
\<close>

theorem classifier_total:
  "(t ''provides_secure_connection'' = None \<longrightarrow> \<not> transport_provides_secure_connection t) \<and>
   (t ''provides_muxed_connection'' = None \<longrightarrow> \<not> transport_provides_muxed_connection t) \<and>
   (t ''provides_secure_connection'' = None \<or> t ''provides_muxed_connection'' = None \<longrightarrow>
      \<not> transport_provides_secure_muxed t) \<and>
   (c ''set_resource_scope'' = None \<longrightarrow> \<not> muxed_conn_has_resource_scope c) \<and>
   (c ''is_established'' = None \<or> c ''_connected_event'' = None \<longrightarrow>
      \<not> muxed_conn_has_establishment_wait c) \<and>
   (c ''_negotiation_semaphore'' = None \<longrightarrow> \<not> muxed_conn_has_negotiation_semaphore c) \<and>
   (c ''_connected_event'' = None \<longrightarrow> muxed_conn_get_establishment_waiter c = PNone) \<and>
   (c ''is_established'' = None \<longrightarrow> muxed_conn_is_established c = Inr True) \<and>
   (c ''is_established'' = Some v \<and> \<not> callable v \<longrightarrow>
      call0 v = Inl TypeError \<and> (\<exists>b. muxed_conn_is_established c = Inr b)) \<and>
   (muxed_conn_is_established c = Inl e \<longrightarrow>
      (\<exists>n. c ''is_established'' = Some (PCallable n (Inl e))))"
proof -
  have transports:
    "(t ''provides_secure_connection'' = None \<longrightarrow> \<not> transport_provides_secure_connection t) \<and>
     (t ''provides_muxed_connection'' = None \<longrightarrow> \<not> transport_provides_muxed_connection t) \<and>
     (t ''provides_secure_connection'' = None \<or> t ''provides_muxed_connection'' = None \<longrightarrow>
        \<not> transport_provides_secure_muxed t)"
    by (auto simp add: transport_provides_secure_muxed_def py_and_conj
        transport_provides_secure_connection_def transport_provides_muxed_connection_def
        PROVIDES_SECURE_ATTRIBUTE_def PROVIDES_MUXED_ATTRIBUTE_def getattr_def)
  have probes:
    "(c ''set_resource_scope'' = None \<longrightarrow> \<not> muxed_conn_has_resource_scope c) \<and>
     (c ''is_established'' = None \<or> c ''_connected_event'' = None \<longrightarrow>
        \<not> muxed_conn_has_establishment_wait c) \<and>
     (c ''_negotiation_semaphore'' = None \<longrightarrow> \<not> muxed_conn_has_negotiation_semaphore c) \<and>
     (c ''_connected_event'' = None \<longrightarrow> muxed_conn_get_establishment_waiter c = PNone)"
    by (auto simp add: muxed_conn_has_resource_scope_def
        muxed_conn_has_establishment_wait_def muxed_conn_has_negotiation_semaphore_def
        muxed_conn_get_establishment_waiter_def py_and_conj hasattr_iff getattr_def)
  have not_called: "call0 v = Inl TypeError \<and> (\<exists>b. muxed_conn_is_established c = Inr b)"
    if "c ''is_established'' = Some v" and "\<not> callable v"
    using that by (cases v) (auto simp add: muxed_conn_is_established_present)
  have raises: "\<exists>n. c ''is_established'' = Some (PCallable n (Inl e))"
    if raised: "muxed_conn_is_established c = Inl e"
  proof (cases "c ''is_established''")
    case None
    with raised show ?thesis
      by (simp add: muxed_conn_is_established_absent)
  next
    case (Some w)
    with raised show ?thesis
      by (cases w) (auto simp add: muxed_conn_is_established_present split: sum.splits)
  qed
  from transports probes not_called raises muxed_conn_is_established_absent [of c]
  show ?thesis by blast
qed

theorem classifier_total_witness:
  "\<not> transport_provides_secure_connection Map.empty \<and>
   \<not> transport_provides_muxed_connection Map.empty \<and>
   \<not> transport_provides_secure_muxed Map.empty \<and>
   \<not> muxed_conn_has_resource_scope [''is_established'' \<mapsto> PInt 1] \<and>
   \<not> muxed_conn_has_establishment_wait [''is_established'' \<mapsto> PInt 1] \<and>
   \<not> muxed_conn_has_negotiation_semaphore [''is_established'' \<mapsto> PInt 1] \<and>
   muxed_conn_get_establishment_waiter [''is_established'' \<mapsto> PInt 1] = PNone \<and>
   muxed_conn_is_established Map.empty = Inr True \<and>
   call0 (PInt 1) = Inl TypeError \<and>
   (\<exists>b. muxed_conn_is_established [''is_established'' \<mapsto> PInt 1] = Inr b) \<and>
   (\<exists>n. [''is_established'' \<mapsto> PCallable 3 (Inl (Raised ''reset''))] ''is_established''
           = Some (PCallable n (Inl (Raised ''reset''))))"
proof -
  let ?raising = "[''is_established'' \<mapsto> PCallable 3 (Inl (Raised ''reset''))]"
  have r: "muxed_conn_is_established ?raising = Inl (Raised ''reset'')"
    by (simp add: muxed_conn_is_established_def getattr_def)
  show ?thesis
    using classifier_total [of Map.empty Map.empty PNone "Raised []"]
          classifier_total [of Map.empty "[''is_established'' \<mapsto> PInt 1]" "PInt 1" "Raised []"]
          classifier_total [of Map.empty ?raising PNone "Raised ''reset''"] r
    by simp
qed

end
